theory Spec2Isabelle
  imports Main
begin

section \<open>Syntax trees\<close>

text \<open>
  The kinds of \<^verbatim>\<open>ts.SyntaxKind\<close> that \<^verbatim>\<open>areEquivalent.ts\<close> names, and one constructor
  for every other kind (the enumeration is numeric in the compiler).
\<close>

datatype SyntaxKind =
    NumericLiteral
  | StringLiteral
  | RegularExpressionLiteral
  | Identifier
  | NoSubstitutionTemplateLiteral
  | TemplateHead
  | TemplateMiddle
  | TemplateTail
  | JsxText
  | OtherKind nat

text \<open>
  A \<^verbatim>\<open>ts.Node\<close> as the comparison reads it: \<^verbatim>\<open>kind\<close>, \<^verbatim>\<open>getText()\<close> and
  \<^verbatim>\<open>getChildren()\<close>; \<^verbatim>\<open>getChildCount()\<close> is the length of the children.
\<close>

datatype node = Node (kind: SyntaxKind) (getText: string) (getChildren: "node list")

definition getChildCount :: "node \<Rightarrow> nat" where
  "getChildCount n = length (getChildren n)"

text \<open>The argument type \<^verbatim>\<open>ts.Node | ts.Node[]\<close>.\<close>

datatype nodes = Single (theNode: node) | Many (theArray: "node list")

text \<open>\<^verbatim>\<open>isNode\<close> tests \<^verbatim>\<open>kind != null\<close>; an array has no \<^verbatim>\<open>kind\<close>.\<close>

fun isNode :: "nodes \<Rightarrow> bool" where
  "isNode (Single n) = True"
| "isNode (Many ns) = False"

fun isNodeArray :: "nodes \<Rightarrow> bool" where
  "isNodeArray (Single n) = False"
| "isNodeArray (Many ns) = True"

definition COMPARED_BY_TEXT :: "SyntaxKind set" where
  "COMPARED_BY_TEXT =
     {NumericLiteral, StringLiteral, RegularExpressionLiteral, Identifier,
      NoSubstitutionTemplateLiteral, TemplateHead, TemplateMiddle, TemplateTail, JsxText}"

text \<open>
  Modelled from the spec: the helper \<^verbatim>\<open>is\<close> of \<^verbatim>\<open>./nodes\<close> is not among the sources.
  The call \<^verbatim>\<open>is(first, StringLiteral, NumericLiteral)\<close> stands where the spec says
  "kind is a numeric or string literal": the node's kind is one of the listed kinds.
\<close>

definition is_kind :: "node \<Rightarrow> SyntaxKind list \<Rightarrow> bool" where
  "is_kind n kinds = (kind n \<in> set kinds)"

text \<open>
  \<^verbatim>\<open>areEquivalent\<close> and \<^verbatim>\<open>areEquivalentNodes\<close> call each other. The array branch
  is \<^verbatim>\<open>first.length === second.length && first.every((leftNode, index) => ...)\<close>:
  every element of \<^verbatim>\<open>first\<close> with its index, compared with \<^verbatim>\<open>second[index]\<close>.
\<close>

lemma size_node_in_list: "n \<in> set ns \<Longrightarrow> size n < size_list size ns"
  by (induction ns) auto

function areEquivalent :: "nodes \<Rightarrow> nodes \<Rightarrow> bool \<Rightarrow> bool"
  and areEquivalentNodes :: "node \<Rightarrow> node \<Rightarrow> bool \<Rightarrow> bool" where
  "areEquivalent first second ignoreLiterals =
     (if isNode first \<and> isNode second then
        areEquivalentNodes (theNode first) (theNode second) ignoreLiterals
      else if isNodeArray first \<and> isNodeArray second then
        length (theArray first) = length (theArray second) \<and>
        list_all (\<lambda>(leftNode, index).
            areEquivalent (Single leftNode) (Single (theArray second ! index)) ignoreLiterals)
          (zip (theArray first) [0..<length (theArray first)])
      else False)"
| "areEquivalentNodes first second ignoreLiterals =
     (if kind first \<noteq> kind second then False
      else let childCount = getChildCount first in
        if childCount \<noteq> getChildCount second then False
        else if childCount = 0 \<and> kind first \<in> COMPARED_BY_TEXT then
          (if ignoreLiterals \<and> is_kind first [StringLiteral, NumericLiteral] then True
           else getText first = getText second)
        else areEquivalent (Many (getChildren first)) (Many (getChildren second)) ignoreLiterals)"
  by pat_completeness auto

termination
proof (relation "measure (\<lambda>x. case x of
          Inl (f, s, i) \<Rightarrow> (case f of Single n \<Rightarrow> 3 * size n + 1
                                      | Many ns \<Rightarrow> 3 * size_list size ns + 1)
        | Inr (f, s, i) \<Rightarrow> 3 * size f)", goal_cases)
  case 1
  show ?case by simp
next
  case (2 first second ignoreLiterals)
  then show ?case by (cases first) auto
next
  case (3 first second ignoreLiterals x leftNode index)
  then have "leftNode \<in> set (theArray first)"
    by (auto dest: set_zip_leftD)
  with 3 show ?case
    by (cases first) (auto dest: size_node_in_list)
next
  case (4 first second ignoreLiterals childCount)
  then show ?case by (cases first) auto
qed


section \<open>The analysis server\<close>

subsection \<open>The world outside the class\<close>

definition DEFAULT_TSCONFIG :: string where
  "DEFAULT_TSCONFIG = ''DEFAULT_TSCONFIG''"

text \<open>
  JavaScript truthiness of a value of type \<^verbatim>\<open>string | undefined\<close>, as the tests
  \<^verbatim>\<open>if (tsconfigPath)\<close> and \<^verbatim>\<open>if (!tsConfig)\<close> read it: \<^verbatim>\<open>undefined\<close> and the empty
  string are falsy.
\<close>

definition truthy :: "string option \<Rightarrow> bool" where
  "truthy v = (case v of None \<Rightarrow> False | Some str \<Rightarrow> str \<noteq> [])"

text \<open>
  \<^verbatim>\<open>path.dirname\<close> belongs to the platform. All that the directory walk needs of it
  is that taking the directory again and again comes to a directory that is its own
  parent; the type below holds the functions that do so from every path.
\<close>

typedef dirname_fn = "{d :: string \<Rightarrow> string. wf {(d p, p) | p. d p \<noteq> p}}"
  morphisms apply_dirname Abs_dirname_fn
proof
  show "id \<in> {d :: string \<Rightarrow> string. wf {(d p, p) | p. d p \<noteq> p}}"
    by simp
qed

setup_lifting type_definition_dirname_fn

text \<open>
  What a call throws. The class itself has no \<^verbatim>\<open>throw\<close>; the values are those of the
  calls it makes: the \<^verbatim>\<open>SyntaxError\<close> of \<^verbatim>\<open>JSON.parse\<close>, the \<^verbatim>\<open>TypeError\<close> of
  destructuring \<^verbatim>\<open>null\<close>, and whatever the compiler, the configuration parser, the rules
  or the socket throw, with its message.
\<close>

datatype exn = SyntaxError | TypeError | Thrown string

text \<open>
  The interface \<^verbatim>\<open>AnalysisRequest\<close>. Its fields \<^verbatim>\<open>file\<close>, \<^verbatim>\<open>rules\<close>, \<^verbatim>\<open>content\<close>,
  \<^verbatim>\<open>projectRoot\<close> and \<^verbatim>\<open>tsconfigPath\<close> carry the prefix \<open>req_\<close> here, which leaves
  the plain names to the parameters of the methods.
\<close>

record 'rule AnalysisRequest =
  req_file :: string
  req_rules :: "'rule list"
  req_content :: string
  req_projectRoot :: string
  req_tsconfigPath :: "string option"

text \<open>
  What \<^verbatim>\<open>JSON.parse\<close> returns when it returns: \<^verbatim>\<open>null\<close>, or an object that the handler
  reads as an \<^verbatim>\<open>AnalysisRequest\<close> (the source casts without a check). Numbers, strings,
  arrays and objects without the fields are left out: what becomes of them is decided
  in \<^verbatim>\<open>FileCache\<close>, which is not among the sources.
\<close>

datatype 'rule parsed = Null | Request "'rule AnalysisRequest"

text \<open>
  A response object: \<^verbatim>\<open>{ issues }\<close> or \<^verbatim>\<open>{ diagnostics }\<close>, each key present or absent.
\<close>

record ('diag, 'issue) answer =
  issues :: "'issue list option"
  diagnostics :: "'diag list option"

text \<open>
  A request is handled against the file system and the TypeScript services as they are
  at that moment. The record lists every outside call of \<^verbatim>\<open>SonarTsServer\<close>:
  \<^verbatim>\<open>fs.existsSync\<close>, \<^verbatim>\<open>path.dirname\<close> and \<^verbatim>\<open>path.join\<close>, which return on strings;
  the decoding of a received \<^verbatim>\<open>Buffer\<close> that \<^verbatim>\<open>accumulatedData += data\<close> performs;
  and the calls that return (\<open>Inr\<close>) or throw (\<open>Inl\<close>): \<^verbatim>\<open>JSON.parse\<close>,
  \<^verbatim>\<open>JSON.stringify\<close>, \<^verbatim>\<open>client.write\<close>, \<^verbatim>\<open>parseTsConfig\<close>, \<^verbatim>\<open>createService\<close>, the methods
  \<^verbatim>\<open>getProgram\<close> of a language service and \<^verbatim>\<open>getSourceFile\<close> of a program,
  \<^verbatim>\<open>getDiagnostics\<close>, and the evaluation of the rules behind \<^verbatim>\<open>getIssues\<close>.
  A language service holds the server's file cache by reference, so \<^verbatim>\<open>getProgram\<close>
  reads the cache's contents at the time of the call. A \<^verbatim>\<open>Buffer\<close> is a list of bytes,
  written as a \<open>string\<close> (a \<open>char\<close> is a byte).
\<close>

record ('opt, 'svc, 'prog, 'sf, 'diag, 'issue, 'rule) world =
  existsSync :: "string \<Rightarrow> bool"
  dirname :: dirname_fn
  join :: "string \<Rightarrow> string \<Rightarrow> string"
  Buffer_toString :: "string \<Rightarrow> string"
  JSON_parse :: "string \<Rightarrow> exn + 'rule parsed"
  JSON_stringify :: "('diag, 'issue) answer \<Rightarrow> exn + string"
  client_write :: "string \<Rightarrow> exn + unit"
  parseTsConfig :: "string \<Rightarrow> string \<Rightarrow> exn + string list \<times> 'opt"
  createService :: "string list \<Rightarrow> 'opt \<Rightarrow> (string \<rightharpoonup> string) \<Rightarrow> exn + 'svc"
  getProgram :: "'svc \<Rightarrow> (string \<rightharpoonup> string) \<Rightarrow> exn + 'prog option"
  getSourceFile :: "'prog \<Rightarrow> string \<Rightarrow> exn + 'sf option"
  getDiagnostics :: "'sf \<Rightarrow> 'prog \<Rightarrow> exn + 'diag list"
  evaluateRules :: "'rule list \<Rightarrow> 'prog \<Rightarrow> 'sf \<Rightarrow> exn + 'issue list"

subsection \<open>The server's state\<close>

text \<open>
  The three fields of \<^verbatim>\<open>SonarTsServer\<close>. \<open>createdServices\<close> is not a field of the
  class: it counts the services that \<^verbatim>\<open>createNewService\<close> has created and registered,
  so that a rebuild can be observed.
\<close>

record 'svc server =
  fileCache :: "string \<rightharpoonup> string"
  tsConfigCache :: "string \<rightharpoonup> string"
  servicesPerTsconfig :: "string \<rightharpoonup> 'svc"
  createdServices :: nat

definition new_server :: "'svc server" where
  "new_server = \<lparr>fileCache = Map.empty, tsConfigCache = Map.empty,
     servicesPerTsconfig = Map.empty, createdServices = 0\<rparr>"

text \<open>
  Modelled from the spec: \<^verbatim>\<open>FileCache\<close> of \<^verbatim>\<open>./languageService\<close> is not among the
  sources. The spec's FileCacheEntry is "path \<rightarrow> latest textual content; updated on every
  request for that path".
\<close>

definition newContent :: "(string \<rightharpoonup> string) \<Rightarrow> string \<Rightarrow> string \<Rightarrow> (string \<rightharpoonup> string)" where
  "newContent cache f c = cache(f \<mapsto> c)"

definition EMPTY_ANSWER :: "('diag, 'issue) answer" where
  "EMPTY_ANSWER = \<lparr>issues = Some [], diagnostics = None\<rparr>"

text \<open>
  Modelled from the spec: \<^verbatim>\<open>getIssues\<close> of \<^verbatim>\<open>./rules\<close> is not among the sources. The
  spec has the rule set evaluated against the source file and the semantic model, and
  the response \<^verbatim>\<open>{ issues: [...] }\<close> carry the resulting issue list.
\<close>

definition getIssues ::
  "('opt, 'svc, 'prog, 'sf, 'diag, 'issue, 'rule) world \<Rightarrow> 'rule list \<Rightarrow> 'prog \<Rightarrow> 'sf \<Rightarrow>
   exn + ('diag, 'issue) answer" where
  "getIssues w rs program sourceFile =
     (case evaluateRules w rs program sourceFile of
        Inl e \<Rightarrow> Inl e
      | Inr found \<Rightarrow> Inr \<lparr>issues = Some found, diagnostics = None\<rparr>)"

subsection \<open>Configuration resolution\<close>

text \<open>
  The \<^verbatim>\<open>do ... while\<close> loop of \<^verbatim>\<open>getTsConfig\<close>, from the value of \<^verbatim>\<open>currentDirectory\<close>
  at the top of the body to the value the method returns.
\<close>

lemma dirname_wf: "wf {(apply_dirname d p, p) | p. apply_dirname d p \<noteq> p}"
  using apply_dirname [of d] by simp

function getTsConfig_loop ::
  "('opt, 'svc, 'prog, 'sf, 'diag, 'issue, 'rule) world \<Rightarrow> string \<Rightarrow> string" where
  "getTsConfig_loop w current =
     (let currentDirectory = apply_dirname (dirname w) current;
          possibleTsConfig = join w currentDirectory ''tsconfig.json''
      in if existsSync w possibleTsConfig then possibleTsConfig
         else if currentDirectory \<noteq> apply_dirname (dirname w) currentDirectory
         then getTsConfig_loop w currentDirectory
         else DEFAULT_TSCONFIG)"
  by pat_completeness auto

termination
proof (relation "same_fst (\<lambda>w. True)
    (\<lambda>w. {(apply_dirname (dirname w) p, p) | p. apply_dirname (dirname w) p \<noteq> p})", goal_cases)
  case 1
  show ?case by (rule wf_same_fst) (rule dirname_wf)
next
  case (2 w current x xa)
  then show ?case by (auto simp: same_fst_def)
qed

definition getTsConfig ::
  "('opt, 'svc, 'prog, 'sf, 'diag, 'issue, 'rule) world \<Rightarrow> string \<Rightarrow> string option \<Rightarrow>
   string option" where
  "getTsConfig w filePath tsconfigPath =
     (if truthy tsconfigPath then
        (if existsSync w (the tsconfigPath) then Some (the tsconfigPath) else None)
      else Some (getTsConfig_loop w filePath))"

definition retrieveTsConfig ::
  "('opt, 'svc, 'prog, 'sf, 'diag, 'issue, 'rule) world \<Rightarrow> 'svc server \<Rightarrow> string \<Rightarrow>
   string option \<Rightarrow> string option \<times> 'svc server" where
  "retrieveTsConfig w s f tsconfigPath =
     (if tsConfigCache s f = None then
        (let tsConfig = getTsConfig w f tsconfigPath in
         if \<not> truthy tsConfig then (None, s)
         else (let s' = s\<lparr>tsConfigCache := (tsConfigCache s)(f \<mapsto> the tsConfig)\<rparr>
               in (tsConfigCache s' f, s')))
      else (tsConfigCache s f, s))"

subsection \<open>The language services\<close>

text \<open>
  \<^verbatim>\<open>createNewService\<close> has no \<^verbatim>\<open>catch\<close>: when \<^verbatim>\<open>parseTsConfig\<close> or \<^verbatim>\<open>createService\<close>
  throws, the method is left before \<^verbatim>\<open>servicesPerTsconfig.set\<close>.
\<close>

definition createNewService ::
  "('opt, 'svc, 'prog, 'sf, 'diag, 'issue, 'rule) world \<Rightarrow> 'svc server \<Rightarrow> string \<Rightarrow> string \<Rightarrow>
   (exn + 'svc) \<times> 'svc server" where
  "createNewService w s tsConfig root =
     (case parseTsConfig w tsConfig root of
        Inl e \<Rightarrow> (Inl e, s)
      | Inr (files, options) \<Rightarrow>
          (case createService w files options (fileCache s) of
             Inl e \<Rightarrow> (Inl e, s)
           | Inr service \<Rightarrow>
               (Inr service,
                s\<lparr>servicesPerTsconfig := (servicesPerTsconfig s)(tsConfig \<mapsto> service),
                  createdServices := createdServices s + 1\<rparr>)))"

text \<open>
  The first half of \<^verbatim>\<open>retrieveProgramAndSourceFile\<close>: the registered service, its
  program and the program's source file, when all three are there.
\<close>

definition registeredSourceFile ::
  "('opt, 'svc, 'prog, 'sf, 'diag, 'issue, 'rule) world \<Rightarrow> 'svc server \<Rightarrow> string \<Rightarrow> string \<Rightarrow>
   exn + ('sf \<times> 'prog) option" where
  "registeredSourceFile w s f tsConfig =
     (case servicesPerTsconfig s tsConfig of
        None \<Rightarrow> Inr None
      | Some registeredService \<Rightarrow>
          (case getProgram w registeredService (fileCache s) of
             Inl e \<Rightarrow> Inl e
           | Inr None \<Rightarrow> Inr None
           | Inr (Some program) \<Rightarrow>
               (case getSourceFile w program f of
                  Inl e \<Rightarrow> Inl e
                | Inr None \<Rightarrow> Inr None
                | Inr (Some sourceFile) \<Rightarrow> Inr (Some (sourceFile, program)))))"

definition retrieveProgramAndSourceFile ::
  "('opt, 'svc, 'prog, 'sf, 'diag, 'issue, 'rule) world \<Rightarrow> 'svc server \<Rightarrow> string \<Rightarrow> string \<Rightarrow>
   string \<Rightarrow> (exn + ('sf \<times> 'prog) option) \<times> 'svc server" where
  "retrieveProgramAndSourceFile w s f tsConfig root =
     (case registeredSourceFile w s f tsConfig of
        Inl e \<Rightarrow> (Inl e, s)
      | Inr (Some found) \<Rightarrow> (Inr (Some found), s)
      | Inr None \<Rightarrow>
          (case createNewService w s tsConfig root of
             (Inl e, s') \<Rightarrow> (Inl e, s')
           | (Inr newService, s') \<Rightarrow>
               (case getProgram w newService (fileCache s') of
                  Inl e \<Rightarrow> (Inl e, s')
                | Inr None \<Rightarrow> (Inr None, s')
                | Inr (Some program) \<Rightarrow>
                    (case getSourceFile w program f of
                       Inl e \<Rightarrow> (Inl e, s')
                     | Inr None \<Rightarrow> (Inr None, s')
                     | Inr (Some sourceFile) \<Rightarrow> (Inr (Some (sourceFile, program)), s')))))"

subsection \<open>Requests\<close>

text \<open>
  \<^verbatim>\<open>handleAnalysisRequest\<close> is given what \<^verbatim>\<open>JSON.parse\<close> returned. Its first statement
  destructures the request, which throws a \<^verbatim>\<open>TypeError\<close> on \<^verbatim>\<open>null\<close>. A throw of a later
  call leaves the method with the state as changed so far.
\<close>

definition handleAnalysisRequest ::
  "('opt, 'svc, 'prog, 'sf, 'diag, 'issue, 'rule) world \<Rightarrow> 'svc server \<Rightarrow>
   'rule parsed \<Rightarrow> (exn + ('diag, 'issue) answer) \<times> 'svc server" where
  "handleAnalysisRequest w s parsedRequest =
     (case parsedRequest of
        Null \<Rightarrow> (Inl TypeError, s)
      | Request request \<Rightarrow>
          (let s1 = s\<lparr>fileCache :=
                       newContent (fileCache s) (req_file request) (req_content request)\<rparr>;
               (tsConfig, s2) =
                 retrieveTsConfig w s1 (req_file request) (req_tsconfigPath request)
           in if \<not> truthy tsConfig then (Inr EMPTY_ANSWER, s2)
              else
                (case retrieveProgramAndSourceFile w s2 (req_file request) (the tsConfig)
                        (req_projectRoot request) of
                   (Inl e, s3) \<Rightarrow> (Inl e, s3)
                 | (Inr None, s3) \<Rightarrow> (Inr EMPTY_ANSWER, s3)
                 | (Inr (Some (sourceFile, program)), s3) \<Rightarrow>
                     (case getDiagnostics w sourceFile program of
                        Inl e \<Rightarrow> (Inl e, s3)
                      | Inr ds \<Rightarrow>
                          if length ds > 0
                          then (Inr \<lparr>issues = None, diagnostics = Some ds\<rparr>, s3)
                          else (getIssues w (req_rules request) program sourceFile, s3)))))"

text \<open>
  The connection of \<^verbatim>\<open>start\<close>: the closure variable \<^verbatim>\<open>accumulatedData\<close> and the server.
  \<open>onData\<close> is the handler of the \<^verbatim>\<open>data\<close> event; it returns what \<^verbatim>\<open>client.write\<close> has
  sent, in order. The chunk is decoded on its own and appended. The \<^verbatim>\<open>try\<close> block holds
  the parse, the clearing of the buffer, the handling and the write; its \<^verbatim>\<open>catch\<close>
  ignores whatever any of them throws. So a throw of \<^verbatim>\<open>JSON.parse\<close> leaves the buffer
  as appended, and a throw of a later call leaves it cleared, with nothing written.
  \<open>receive\<close> runs the handler over the chunks as they arrive, each with the world at
  its arrival.
\<close>

record 'svc connection =
  accumulatedData :: string
  server :: "'svc server"



section \<open>Values to run the model on\<close>

text \<open>Leaves used as examples: two numerals, two identifiers.\<close>

definition num1 :: node where
  "num1 = Node NumericLiteral ''1'' []"

definition num2 :: node where
  "num2 = Node NumericLiteral ''2'' []"

definition idA :: node where
  "idA = Node Identifier ''a'' []"

definition idB :: node where
  "idB = Node Identifier ''b'' []"

text \<open>
  A directory function for paths written with slashes: the path up to its last slash,
  \<open>/\<close> for a path directly under the root and for the root, \<open>.\<close> for a path without
  a slash. It comes to \<open>/\<close> or \<open>.\<close> from every path.
\<close>

definition slash_dirname :: "string \<Rightarrow> string" where
  "slash_dirname p =
     (let q = rev (dropWhile (\<lambda>c. c \<noteq> CHR ''/'') (rev p))
      in if q = [] then ''.'' else if q = ''/'' then ''/'' else butlast q)"

lemma slash_dirname_measure:
  assumes "slash_dirname p \<noteq> p"
  shows "(if slash_dirname p = ''.'' then 0 else length (slash_dirname p) + 1)
       < (if p = ''.'' then 0 else length p + 1)"
proof -
  define q where "q = rev (dropWhile (\<lambda>c. c \<noteq> CHR ''/'') (rev p))"
  have sd: "slash_dirname p = (if q = [] then ''.'' else if q = ''/'' then ''/'' else butlast q)"
    by (simp only: slash_dirname_def q_def Let_def)
  have split: "p = q @ rev (takeWhile (\<lambda>c. c \<noteq> CHR ''/'') (rev p))"
    unfolding q_def
    by (metis rev_append rev_rev_ident takeWhile_dropWhile_id)
  have len: "length q \<le> length p"
    unfolding q_def using length_dropWhile_le [of "\<lambda>c. c \<noteq> CHR ''/''" "rev p"] by simp
  show ?thesis
  proof (cases "q = []")
    case True
    with sd have "slash_dirname p = ''.''" by simp
    with assms show ?thesis by auto
  next
    case False
    have pdot: "p \<noteq> ''.''"
      using False by (auto simp: q_def)
    show ?thesis
    proof (cases "q = ''/''")
      case True
      with sd have d: "slash_dirname p = ''/''" by simp
      from assms d have "p \<noteq> ''/''" by auto
      with split True have "length p > 1"
        by (cases "rev (takeWhile (\<lambda>c. c \<noteq> CHR ''/'') (rev p))") auto
      with d pdot show ?thesis by simp
    next
      case q: False
      with False sd have d: "slash_dirname p = butlast q" by simp
      have "length (butlast q) < length q"
        using False by simp
      with len d pdot show ?thesis by auto
    qed
  qed
qed

lift_definition posix_dirname :: dirname_fn is slash_dirname
proof -
  have "{(slash_dirname p, p) | p. slash_dirname p \<noteq> p}
      \<subseteq> measure (\<lambda>p. if p = ''.'' then 0 else length p + 1)"
    using slash_dirname_measure by auto
  then show "wf {(slash_dirname p, p) | p. slash_dirname p \<noteq> p}"
    by (rule wf_subset [OF wf_measure])
qed

text \<open>
  A small world: the listed paths exist on disk; chunks are ASCII; the buffer \<open>{a.ts}\<close>
  parses to a request for \<open>/proj/src/a.ts\<close>, \<open>null\<close> to \<^verbatim>\<open>null\<close>, and nothing else
  parses; every configuration has the one file \<open>src/a.ts\<close> under the project root; a
  program holds its files with their cached content; the content \<open>let x =\<close> has a
  syntax error; the rules report their own names. In the broken world the configuration
  file does not parse any more: \<^verbatim>\<open>parseTsConfig\<close> throws.
\<close>

definition example_request :: "string AnalysisRequest" where
  "example_request = \<lparr>req_file = ''/proj/src/a.ts'', req_rules = [''no-dup''],
     req_content = ''let x = 1'', req_projectRoot = ''/proj'', req_tsconfigPath = None\<rparr>"

definition example_world ::
  "string list \<Rightarrow>
   (unit, string list, (string \<times> string) list, string \<times> string, string, string, string) world" where
  "example_world disk =
     \<lparr>existsSync = (\<lambda>p. p \<in> set disk),
      dirname = posix_dirname,
      join = (\<lambda>a b. if a = ''/'' then a @ b else a @ ''/'' @ b),
      Buffer_toString = (\<lambda>bytes. bytes),
      JSON_parse = (\<lambda>str.
          if str = ''{a.ts}'' then Inr (Request example_request)
          else if str = ''null'' then Inr Null
          else Inl SyntaxError),
      JSON_stringify = (\<lambda>a. case diagnostics a of
                             Some ds \<Rightarrow> Inr (''{diagnostics:'' @ concat ds @ ''}'')
                           | None \<Rightarrow> Inr (''{issues:'' @ concat (the (issues a)) @ ''}'')),
      client_write = (\<lambda>response. Inr ()),
      parseTsConfig = (\<lambda>tsConfig root. Inr ([root @ ''/src/a.ts''], ())),
      createService = (\<lambda>files opt cache. Inr files),
      getProgram = (\<lambda>service cache.
          Inr (Some (map (\<lambda>f. (f, case cache f of None \<Rightarrow> [] | Some c \<Rightarrow> c)) service))),
      getSourceFile = (\<lambda>program f. Inr (map_option (\<lambda>c. (f, c)) (map_of program f))),
      getDiagnostics = (\<lambda>sourceFile program.
          if snd sourceFile = ''let x ='' then Inr [''expression expected''] else Inr []),
      evaluateRules = (\<lambda>rs program sourceFile. Inr rs)\<rparr>"

definition broken_world ::
  "string list \<Rightarrow>
   (unit, string list, (string \<times> string) list, string \<times> string, string, string, string) world" where
  "broken_world disk =
     (example_world disk)\<lparr>parseTsConfig :=
        \<lambda>tsConfig root. Inl (Thrown ''Failed to parse tsconfig'')\<rparr>"

section \<open>Notions the properties are stated with\<close>

text \<open>
  The directories above a file, counted from its parent directory (\<open>ancestor w f 0\<close>),
  the configuration file looked for in each, and the test that ends the walk: a
  directory that is its own parent.
\<close>

definition ancestor ::
  "('opt, 'svc, 'prog, 'sf, 'diag, 'issue, 'rule) world \<Rightarrow> string \<Rightarrow> nat \<Rightarrow> string" where
  "ancestor w filePath k = (apply_dirname (dirname w) ^^ Suc k) filePath"

definition candidate ::
  "('opt, 'svc, 'prog, 'sf, 'diag, 'issue, 'rule) world \<Rightarrow> string \<Rightarrow> nat \<Rightarrow> string" where
  "candidate w filePath k = join w (ancestor w filePath k) ''tsconfig.json''"

definition isRoot ::
  "('opt, 'svc, 'prog, 'sf, 'diag, 'issue, 'rule) world \<Rightarrow> string \<Rightarrow> bool" where
  "isRoot w dir = (apply_dirname (dirname w) dir = dir)"

text \<open>
  The tail of \<^verbatim>\<open>handleAnalysisRequest\<close>: what the method returns or throws once
  \<^verbatim>\<open>retrieveProgramAndSourceFile\<close> has returned or thrown.
\<close>

definition answerFor ::
  "('opt, 'svc, 'prog, 'sf, 'diag, 'issue, 'rule) world \<Rightarrow> 'rule AnalysisRequest \<Rightarrow>
   exn + ('sf \<times> 'prog) option \<Rightarrow> exn + ('diag, 'issue) answer" where
  "answerFor w r retrieved =
     (case retrieved of
        Inl e \<Rightarrow> Inl e
      | Inr None \<Rightarrow> Inr EMPTY_ANSWER
      | Inr (Some (sourceFile, program)) \<Rightarrow>
          (case getDiagnostics w sourceFile program of
             Inl e \<Rightarrow> Inl e
           | Inr ds \<Rightarrow>
               if ds \<noteq> [] then Inr \<lparr>issues = None, diagnostics = Some ds\<rparr>
               else getIssues w (req_rules r) program sourceFile))"

section \<open>Properties of the tree comparison\<close>

declare areEquivalent.simps [simp del] areEquivalentNodes.simps [simp del]

lemma every_with_index:
  "list_all (\<lambda>(x, i). P x i) (zip xs [0..<length xs]) = (\<forall>i<length xs. P (xs ! i) i)"
proof
  assume h: "list_all (\<lambda>(x, i). P x i) (zip xs [0..<length xs])"
  show "\<forall>i<length xs. P (xs ! i) i"
  proof (intro allI impI)
    fix i assume "i < length xs"
    then have "(xs ! i, i) \<in> set (zip xs [0..<length xs])"
      by (auto simp: set_zip)
    with h show "P (xs ! i) i"
      by (auto simp: list_all_iff)
  qed
next
  assume "\<forall>i<length xs. P (xs ! i) i"
  then show "list_all (\<lambda>(x, i). P x i) (zip xs [0..<length xs])"
    by (auto simp: list_all_iff set_zip)
qed

lemma areEquivalent_Single:
  "areEquivalent (Single a) (Single b) ig = areEquivalentNodes a b ig"
  by (simp add: areEquivalent.simps)

lemma areEquivalent_Many:
  "areEquivalent (Many xs) (Many ys) ig =
     (length xs = length ys \<and> (\<forall>i<length xs. areEquivalentNodes (xs ! i) (ys ! i) ig))"
  by (subst areEquivalent.simps) (simp add: every_with_index areEquivalent_Single)

lemma areEquivalent_mixed:
  "areEquivalent (Single a) (Many ys) ig = False"
  "areEquivalent (Many xs) (Single b) ig = False"
  by (simp_all add: areEquivalent.simps)

lemma areEquivalentNodes_unfold:
  "areEquivalentNodes a b ig =
     (kind a = kind b \<and> length (getChildren a) = length (getChildren b) \<and>
      (if getChildren a = [] \<and> kind a \<in> COMPARED_BY_TEXT
       then (ig \<and> kind a \<in> {StringLiteral, NumericLiteral}) \<or> getText a = getText b
       else \<forall>i<length (getChildren a).
              areEquivalentNodes (getChildren a ! i) (getChildren b ! i) ig))"
  by (subst areEquivalentNodes.simps)
     (auto simp: areEquivalent_Many getChildCount_def is_kind_def Let_def)

lemma areEquivalentNodes_refl: "areEquivalentNodes n n ig"
proof (induction n)
  case (Node k t cs)
  then have "\<forall>i<length cs. areEquivalentNodes (cs ! i) (cs ! i) ig"
    by simp
  then show ?case
    by (subst areEquivalentNodes_unfold) simp
qed

lemma areEquivalentNodes_sym: "areEquivalentNodes a b ig = areEquivalentNodes b a ig"
proof (induction a arbitrary: b)
  case (Node k t cs)
  obtain k' t' cs' where b: "b = Node k' t' cs'" by (cases b)
  have ih: "length cs = length cs' \<Longrightarrow>
    (\<forall>i<length cs. areEquivalentNodes (cs ! i) (cs' ! i) ig) =
    (\<forall>i<length cs'. areEquivalentNodes (cs' ! i) (cs ! i) ig)"
    using Node.IH by (metis nth_mem)
  have l: "areEquivalentNodes (Node k t cs) (Node k' t' cs') ig =
     (k = k' \<and> length cs = length cs' \<and>
      (if cs = [] \<and> k \<in> COMPARED_BY_TEXT
       then (ig \<and> k \<in> {StringLiteral, NumericLiteral}) \<or> t = t'
       else \<forall>i<length cs. areEquivalentNodes (cs ! i) (cs' ! i) ig))"
    by (subst areEquivalentNodes_unfold) simp
  have r: "areEquivalentNodes (Node k' t' cs') (Node k t cs) ig =
     (k' = k \<and> length cs' = length cs \<and>
      (if cs' = [] \<and> k' \<in> COMPARED_BY_TEXT
       then (ig \<and> k' \<in> {StringLiteral, NumericLiteral}) \<or> t' = t
       else \<forall>i<length cs'. areEquivalentNodes (cs' ! i) (cs ! i) ig))"
    by (subst areEquivalentNodes_unfold) simp
  show ?case
    unfolding b l r using ih by auto
qed

lemmas example_leaves = num1_def num2_def idA_def idB_def

text \<open>
  Claim C1. Two nodes of the same kind, a kind compared by text, both without children:
  with \<open>ignoreLiterals\<close> set and the kind a numeric or string literal, \<open>areEquivalent\<close>
  returns true whatever their text; in every other case (every other kind compared by
  text, identifiers among them, with or without \<open>ignoreLiterals\<close>) it returns true
  exactly when the two texts are equal.
\<close>

theorem leaves_compared_by_text:
  assumes "kind a = kind b" and "kind a \<in> COMPARED_BY_TEXT"
    and "getChildCount a = 0" and "getChildCount b = 0"
  shows "areEquivalent (Single a) (Single b) ig =
           (if ig \<and> kind a \<in> {NumericLiteral, StringLiteral} then True
            else getText a = getText b)"
  using assms
  by (subst areEquivalent_Single, subst areEquivalentNodes_unfold)
     (auto simp: getChildCount_def)

theorem leaves_compared_by_text_witness:
  "areEquivalent (Single num1) (Single num2) True \<and>
   \<not> areEquivalent (Single num1) (Single num2) False \<and>
   \<not> areEquivalent (Single idA) (Single idB) True \<and>
   areEquivalent (Single idA) (Single idA) True"
  using leaves_compared_by_text [of num1 num2 True]
    leaves_compared_by_text [of num1 num2 False]
    leaves_compared_by_text [of idA idB True]
    leaves_compared_by_text [of idA idA True]
  by (simp add: example_leaves COMPARED_BY_TEXT_def getChildCount_def)

text \<open>
  Claim C2. Two sequences are equivalent exactly when they have the same length and
  the elements at every position are equivalent; a single node against a sequence, in
  either order, is not equivalent.
\<close>

theorem sequences_compared_by_position:
  "areEquivalent (Many xs) (Many ys) ig =
     (length xs = length ys \<and>
      (\<forall>i<length xs. areEquivalent (Single (xs ! i)) (Single (ys ! i)) ig))
   \<and> \<not> areEquivalent (Single a) (Many ys) ig
   \<and> \<not> areEquivalent (Many xs) (Single b) ig"
  by (simp add: areEquivalent_Many areEquivalent_Single areEquivalent_mixed)

theorem sequences_compared_by_position_witness:
  "areEquivalent (Many [idA, idB]) (Many [idA, idB]) False \<and>
   \<not> areEquivalent (Many [idA, idB]) (Many [idB, idA]) False \<and>
   \<not> areEquivalent (Many [idA]) (Many [idA, idA]) False \<and>
   \<not> areEquivalent (Single idA) (Many [idA]) False \<and>
   \<not> areEquivalent (Many [idA]) (Single idA) False"
  using sequences_compared_by_position [of "[idA, idB]" "[idA, idB]" False idA idA]
    sequences_compared_by_position [of "[idA, idB]" "[idB, idA]" False idA idA]
    sequences_compared_by_position [of "[idA]" "[idA, idA]" False idA idA]
    sequences_compared_by_position [of "[idA]" "[idA]" False idA idA]
  by (simp add: areEquivalent_Single areEquivalentNodes_unfold example_leaves
      COMPARED_BY_TEXT_def less_Suc_eq all_conj_distrib)

text \<open>
  Claim C3. Every syntax tree is equivalent to itself, with \<open>ignoreLiterals\<close> false or
  true; so is every sequence of trees.
\<close>

theorem areEquivalent_reflexive:
  "areEquivalent (Single t) (Single t) ig \<and> areEquivalent (Many ts) (Many ts) ig"
  by (simp add: areEquivalent_Single areEquivalent_Many areEquivalentNodes_refl)

theorem areEquivalent_reflexive_witness:
  "areEquivalent (Single (Node (OtherKind 0) ''f(1)'' [idA, num1])) 
     (Single (Node (OtherKind 0) ''f(1)'' [idA, num1])) False \<and>
   areEquivalent (Many [idA, num1]) (Many [idA, num1]) True"
  using areEquivalent_reflexive [of "Node (OtherKind 0) ''f(1)'' [idA, num1]" False "[idA, num1]"]
    areEquivalent_reflexive [of idA True "[idA, num1]"]
  by simp

text \<open>
  Claim C9. \<open>areEquivalent\<close> is symmetric: exchanging its two arguments, each a node or
  a sequence, does not change the result, for either value of \<open>ignoreLiterals\<close>.
\<close>

theorem areEquivalent_symmetric:
  "areEquivalent a b ig = areEquivalent b a ig"
proof (cases a; cases b)
  fix x y assume "a = Single x" "b = Single y"
  then show ?thesis
    by (simp add: areEquivalent_Single areEquivalentNodes_sym [of x y])
next
  fix xs ys assume "a = Many xs" "b = Many ys"
  then show ?thesis
    by (auto simp: areEquivalent_Many areEquivalentNodes_sym [of _ _ ig])
qed (simp_all add: areEquivalent_mixed)

theorem areEquivalent_symmetric_witness:
  "areEquivalent (Single num1) (Single num2) True = areEquivalent (Single num2) (Single num1) True \<and>
   areEquivalent (Many [idA]) (Single idA) False = areEquivalent (Single idA) (Many [idA]) False"
  using areEquivalent_symmetric [of "Single num1" "Single num2" True]
    areEquivalent_symmetric [of "Many [idA]" "Single idA" False]
  by simp


section \<open>Properties of the configuration resolution\<close>

declare getTsConfig_loop.simps [simp del]

lemma ancestor_0: "ancestor w p 0 = apply_dirname (dirname w) p"
  by (simp add: ancestor_def)

lemma ancestor_Suc: "ancestor w p (Suc k) = ancestor w (apply_dirname (dirname w) p) k"
  unfolding ancestor_def by (simp add: funpow_swap1)

lemma candidate_0: "candidate w p 0 = join w (apply_dirname (dirname w) p) ''tsconfig.json''"
  by (simp add: candidate_def ancestor_0)

lemma candidate_Suc: "candidate w p (Suc k) = candidate w (apply_dirname (dirname w) p) k"
  by (simp add: candidate_def ancestor_Suc)

lemma getTsConfig_loop_walk:
  "\<exists>n. (\<forall>k<n. \<not> existsSync w (candidate w p k) \<and> \<not> isRoot w (ancestor w p k)) \<and>
       (if existsSync w (candidate w p n) then getTsConfig_loop w p = candidate w p n
        else isRoot w (ancestor w p n) \<and> getTsConfig_loop w p = DEFAULT_TSCONFIG)"
proof (induction w p rule: getTsConfig_loop.induct)
  case (1 w current)
  let ?d = "apply_dirname (dirname w) current"
  show ?case
  proof (cases "existsSync w (candidate w current 0)")
    case True
    then have "getTsConfig_loop w current = candidate w current 0"
      by (subst getTsConfig_loop.simps) (simp add: candidate_0)
    with True show ?thesis
      by (intro exI [of _ 0]) simp
  next
    case False
    show ?thesis
    proof (cases "isRoot w ?d")
      case True
      with False have "getTsConfig_loop w current = DEFAULT_TSCONFIG"
        by (subst getTsConfig_loop.simps) (simp add: candidate_0 isRoot_def)
      with False True show ?thesis
        by (intro exI [of _ 0]) (simp add: ancestor_0)
    next
      case notRoot: False
      from False notRoot have step: "getTsConfig_loop w current = getTsConfig_loop w ?d"
        by (subst getTsConfig_loop.simps) (simp add: candidate_0 isRoot_def)
      from False notRoot obtain n where
        before: "\<forall>k<n. \<not> existsSync w (candidate w ?d k) \<and> \<not> isRoot w (ancestor w ?d k)" and
        at: "if existsSync w (candidate w ?d n) then getTsConfig_loop w ?d = candidate w ?d n
             else isRoot w (ancestor w ?d n) \<and> getTsConfig_loop w ?d = DEFAULT_TSCONFIG"
        using "1.IH" [OF refl refl] by (auto simp: candidate_0 isRoot_def)
      have "\<forall>k<Suc n. \<not> existsSync w (candidate w current k) \<and> \<not> isRoot w (ancestor w current k)"
      proof (intro allI impI)
        fix k assume "k < Suc n"
        then show "\<not> existsSync w (candidate w current k) \<and> \<not> isRoot w (ancestor w current k)"
          using False notRoot before
          by (cases k) (simp_all add: candidate_Suc ancestor_Suc ancestor_0)
      qed
      moreover have "if existsSync w (candidate w current (Suc n))
          then getTsConfig_loop w current = candidate w current (Suc n)
          else isRoot w (ancestor w current (Suc n)) \<and>
               getTsConfig_loop w current = DEFAULT_TSCONFIG"
        using at step by (simp add: candidate_Suc ancestor_Suc)
      ultimately show ?thesis by blast
    qed
  qed
qed

lemma truthy_simps [simp]:
  "truthy None = False" "truthy (Some str) = (str \<noteq> [])"
  by (simp_all add: truthy_def)

lemma apply_posix_dirname: "apply_dirname posix_dirname = slash_dirname"
  by (rule posix_dirname.rep_eq)

lemma example_paths:
  "apply_dirname (dirname (example_world disk)) = slash_dirname"
  "join (example_world disk) a b = (if a = ''/'' then a @ b else a @ ''/'' @ b)"
  "existsSync (example_world disk) p = (p \<in> set disk)"
  by (simp_all add: example_world_def apply_posix_dirname)

lemma example_loop_found:
  "getTsConfig_loop (example_world [''/proj/tsconfig.json'']) ''/proj/src/a.ts'' = ''/proj/tsconfig.json''"
  by (simp add: getTsConfig_loop.simps [of _ "''/proj/src/a.ts''"]
      getTsConfig_loop.simps [of _ "''/proj/src''"] example_paths slash_dirname_def)

lemma example_loop_default:
  "getTsConfig_loop (example_world []) ''/proj/src/a.ts'' = DEFAULT_TSCONFIG"
  by (simp add: getTsConfig_loop.simps [of _ "''/proj/src/a.ts''"]
      getTsConfig_loop.simps [of _ "''/proj/src''"] getTsConfig_loop.simps [of _ "''/proj''"]
      example_paths slash_dirname_def)


text \<open>
  Claim C5 (as amended). Without an explicit configuration path (\<^verbatim>\<open>undefined\<close> or the
  empty string), \<open>getTsConfig\<close> walks from the file's parent directory upwards: there
  is a first directory, the \<open>n\<close>-th above the file, before which no directory holds a
  \<open>tsconfig.json\<close> or is its own parent; and either that directory holds a
  \<open>tsconfig.json\<close>, whose path (the directory joined with the file name) is returned, or
  it holds none, is its own parent, and the sentinel \<open>DEFAULT_TSCONFIG\<close> is returned.
  The result is never \<^verbatim>\<open>undefined\<close>.
\<close>

theorem getTsConfig_walks_up:
  assumes "\<not> truthy tsconfigPath"
  shows "\<exists>n. (\<forall>k<n. \<not> existsSync w (candidate w filePath k) \<and> \<not> isRoot w (ancestor w filePath k)) \<and>
       (if existsSync w (candidate w filePath n)
        then getTsConfig w filePath tsconfigPath = Some (candidate w filePath n)
        else isRoot w (ancestor w filePath n) \<and>
             getTsConfig w filePath tsconfigPath = Some DEFAULT_TSCONFIG)"
proof -
  have eq: "getTsConfig w filePath tsconfigPath = Some (getTsConfig_loop w filePath)"
    using assms by (simp add: getTsConfig_def)
  show ?thesis
    unfolding eq using getTsConfig_loop_walk [of w filePath] by (simp cong: if_cong)
qed

theorem getTsConfig_walks_up_witness:
  "(\<exists>n. (\<forall>k<n. \<not> existsSync (example_world [''/proj/tsconfig.json''])
                    (candidate (example_world [''/proj/tsconfig.json'']) ''/proj/src/a.ts'' k) \<and>
                \<not> isRoot (example_world [''/proj/tsconfig.json''])
                    (ancestor (example_world [''/proj/tsconfig.json'']) ''/proj/src/a.ts'' k)) \<and>
        (if existsSync (example_world [''/proj/tsconfig.json''])
              (candidate (example_world [''/proj/tsconfig.json'']) ''/proj/src/a.ts'' n)
         then getTsConfig (example_world [''/proj/tsconfig.json'']) ''/proj/src/a.ts'' None =
                Some (candidate (example_world [''/proj/tsconfig.json'']) ''/proj/src/a.ts'' n)
         else isRoot (example_world [''/proj/tsconfig.json''])
                (ancestor (example_world [''/proj/tsconfig.json'']) ''/proj/src/a.ts'' n) \<and>
              getTsConfig (example_world [''/proj/tsconfig.json'']) ''/proj/src/a.ts'' None =
                Some DEFAULT_TSCONFIG)) \<and>
   getTsConfig (example_world [''/proj/tsconfig.json'']) ''/proj/src/a.ts'' None =
     Some ''/proj/tsconfig.json'' \<and>
   getTsConfig (example_world []) ''/proj/src/a.ts'' None = Some DEFAULT_TSCONFIG"
proof -
  have "\<not> truthy None" by simp
  from getTsConfig_walks_up [OF this, of "example_world [''/proj/tsconfig.json'']" "''/proj/src/a.ts''"]
  show ?thesis
    by (simp add: getTsConfig_def example_loop_found example_loop_default)
qed

text \<open>
  The claim has the walk return the first directory that contains the configuration
  file. With \<open>/proj/tsconfig.json\<close> on disk and the file \<open>/proj/src/a.ts\<close>, that
  directory is \<open>/proj\<close>; the value returned is the path \<open>/proj/tsconfig.json\<close>.
\<close>

theorem first_match_is_a_file_path:
  "apply_dirname (dirname (example_world [''/proj/tsconfig.json''])) ''/proj/src/a.ts'' = ''/proj/src'' \<and>
   apply_dirname (dirname (example_world [''/proj/tsconfig.json''])) ''/proj/src'' = ''/proj'' \<and>
   \<not> existsSync (example_world [''/proj/tsconfig.json''])
       (join (example_world [''/proj/tsconfig.json'']) ''/proj/src'' ''tsconfig.json'') \<and>
   existsSync (example_world [''/proj/tsconfig.json''])
       (join (example_world [''/proj/tsconfig.json'']) ''/proj'' ''tsconfig.json'') \<and>
   getTsConfig (example_world [''/proj/tsconfig.json'']) ''/proj/src/a.ts'' None =
     Some ''/proj/tsconfig.json'' \<and>
   getTsConfig (example_world [''/proj/tsconfig.json'']) ''/proj/src/a.ts'' None \<noteq> Some ''/proj''"
  by (simp add: getTsConfig_def example_loop_found example_paths slash_dirname_def)

lemma getTsConfig_explicit:
  "p \<noteq> [] \<Longrightarrow> getTsConfig w f (Some p) = (if existsSync w p then Some p else None)"
  by (simp add: getTsConfig_def)

lemma retrieveTsConfig_cached:
  "tsConfigCache s f = Some c \<Longrightarrow> retrieveTsConfig w s f p = (Some c, s)"
  by (simp add: retrieveTsConfig_def)

lemma retrieveTsConfig_uncached:
  "tsConfigCache s f = None \<Longrightarrow>
   retrieveTsConfig w s f p =
     (if truthy (getTsConfig w f p)
      then (getTsConfig w f p, s\<lparr>tsConfigCache := (tsConfigCache s)(f \<mapsto> the (getTsConfig w f p))\<rparr>)
      else (None, s))"
  by (auto simp: retrieveTsConfig_def Let_def truthy_def split: option.splits)

lemma retrieveTsConfig_None:
  "fst (retrieveTsConfig w s f p) = None \<Longrightarrow>
   retrieveTsConfig w s f p = (None, s) \<and> tsConfigCache s f = None \<and> \<not> truthy (getTsConfig w f p)"
  by (cases "tsConfigCache s f")
     (auto simp: retrieveTsConfig_cached retrieveTsConfig_uncached split: if_splits)

lemma retrieveTsConfig_stores_success:
  "snd (retrieveTsConfig w s f p) = s \<or>
   (\<exists>c. c \<noteq> [] \<and> getTsConfig w f p = Some c \<and> tsConfigCache s f = None \<and>
        snd (retrieveTsConfig w s f p) = s\<lparr>tsConfigCache := (tsConfigCache s)(f \<mapsto> c)\<rparr>)"
  by (cases "tsConfigCache s f")
     (auto simp: retrieveTsConfig_cached retrieveTsConfig_uncached truthy_def split: option.splits)

lemma retrieveTsConfig_keeps:
  "fileCache (snd (retrieveTsConfig w s f p)) = fileCache s"
  "servicesPerTsconfig (snd (retrieveTsConfig w s f p)) = servicesPerTsconfig s"
  "createdServices (snd (retrieveTsConfig w s f p)) = createdServices s"
  by (cases "tsConfigCache s f";
      simp add: retrieveTsConfig_cached retrieveTsConfig_uncached)+

lemma retrieveTsConfig_result_cached:
  "fst (retrieveTsConfig w s f p) = Some c \<Longrightarrow>
   tsConfigCache (snd (retrieveTsConfig w s f p)) f = Some c"
  by (cases "tsConfigCache s f")
     (auto simp: retrieveTsConfig_cached retrieveTsConfig_uncached truthy_def
        split: if_splits option.splits)

section \<open>Properties of the language services and of a request\<close>

lemma retrieve_registered:
  "registeredSourceFile w s f c = Inr (Some found) \<Longrightarrow>
   retrieveProgramAndSourceFile w s f c root = (Inr (Some found), s)"
  by (simp add: retrieveProgramAndSourceFile_def)

lemma retrieve_lookup_throws:
  "registeredSourceFile w s f c = Inl e \<Longrightarrow>
   retrieveProgramAndSourceFile w s f c root = (Inl e, s)"
  by (simp add: retrieveProgramAndSourceFile_def)

lemma createNewService_returns:
  "parseTsConfig w c root = Inr (files, options) \<Longrightarrow>
   createService w files options (fileCache s) = Inr service \<Longrightarrow>
   createNewService w s c root =
     (Inr service, s\<lparr>servicesPerTsconfig := (servicesPerTsconfig s)(c \<mapsto> service),
                     createdServices := createdServices s + 1\<rparr>)"
  by (simp add: createNewService_def)

lemma createNewService_throws:
  "parseTsConfig w c root = Inl e \<Longrightarrow> createNewService w s c root = (Inl e, s)"
  "parseTsConfig w c root = Inr (files, options) \<Longrightarrow>
   createService w files options (fileCache s) = Inl e \<Longrightarrow>
   createNewService w s c root = (Inl e, s)"
  by (simp_all add: createNewService_def)

lemma createNewService_cases:
  "(\<exists>e. createNewService w s c root = (Inl e, s)) \<or>
   (\<exists>service. createNewService w s c root =
      (Inr service, s\<lparr>servicesPerTsconfig := (servicesPerTsconfig s)(c \<mapsto> service),
                      createdServices := createdServices s + 1\<rparr>))"
  by (auto simp: createNewService_def split: sum.splits prod.splits)

lemma retrieve_rebuilds:
  "registeredSourceFile w s f c = Inr None \<Longrightarrow>
   snd (retrieveProgramAndSourceFile w s f c root) = snd (createNewService w s c root)"
  by (auto simp: retrieveProgramAndSourceFile_def split: sum.splits prod.splits option.splits)

lemma retrieve_rebuild_throws:
  "registeredSourceFile w s f c = Inr None \<Longrightarrow> createNewService w s c root = (Inl e, s') \<Longrightarrow>
   retrieveProgramAndSourceFile w s f c root = (Inl e, s')"
  by (simp add: retrieveProgramAndSourceFile_def)

lemma retrieve_result_registered:
  assumes "registeredSourceFile w (snd (retrieveProgramAndSourceFile w s f c root)) f c =
           Inr (Some found)"
  shows "fst (retrieveProgramAndSourceFile w s f c root) = Inr (Some found)"
proof (cases "registeredSourceFile w s f c")
  case (Inl e)
  with assms show ?thesis by (simp add: retrieve_lookup_throws)
next
  case (Inr looked)
  show ?thesis
  proof (cases looked)
    case (Some found0)
    with Inr assms show ?thesis by (simp add: retrieve_registered)
  next
    case None
    with Inr have lookup: "registeredSourceFile w s f c = Inr None" by simp
    from createNewService_cases [of w s c root] show ?thesis
    proof (elim disjE exE)
      fix e assume n: "createNewService w s c root = (Inl e, s)"
      then have "snd (retrieveProgramAndSourceFile w s f c root) = s"
        using lookup by (simp add: retrieve_rebuild_throws)
      with assms lookup show ?thesis by simp
    next
      fix service
      assume n: "createNewService w s c root =
        (Inr service, s\<lparr>servicesPerTsconfig := (servicesPerTsconfig s)(c \<mapsto> service),
                        createdServices := createdServices s + 1\<rparr>)"
      let ?s' = "s\<lparr>servicesPerTsconfig := (servicesPerTsconfig s)(c \<mapsto> service),
                    createdServices := createdServices s + 1\<rparr>"
      have st: "snd (retrieveProgramAndSourceFile w s f c root) = ?s'"
        using lookup n by (simp add: retrieve_rebuilds)
      have "fst (retrieveProgramAndSourceFile w s f c root) = registeredSourceFile w ?s' f c"
        using lookup n
        by (simp add: retrieveProgramAndSourceFile_def registeredSourceFile_def
            split: sum.splits option.splits)
      with assms st show ?thesis by simp
    qed
  qed
qed

lemma retrieve_keeps_caches:
  "fileCache (snd (retrieveProgramAndSourceFile w s f c root)) = fileCache s"
  "tsConfigCache (snd (retrieveProgramAndSourceFile w s f c root)) = tsConfigCache s"
proof -
  have "snd (retrieveProgramAndSourceFile w s f c root) = s \<or>
        snd (retrieveProgramAndSourceFile w s f c root) = snd (createNewService w s c root)"
    by (auto simp: retrieveProgramAndSourceFile_def split: sum.splits prod.splits option.splits)
  moreover have "fileCache (snd (createNewService w s c root)) = fileCache s"
    "tsConfigCache (snd (createNewService w s c root)) = tsConfigCache s"
    using createNewService_cases [of w s c root] by auto
  ultimately show
    "fileCache (snd (retrieveProgramAndSourceFile w s f c root)) = fileCache s"
    "tsConfigCache (snd (retrieveProgramAndSourceFile w s f c root)) = tsConfigCache s"
    by auto
qed

lemma handle_Null: "handleAnalysisRequest w s Null = (Inl TypeError, s)"
  by (simp add: handleAnalysisRequest_def)

lemma handle_unfold:
  "handleAnalysisRequest w s (Request r) =
     (let s1 = s\<lparr>fileCache := newContent (fileCache s) (req_file r) (req_content r)\<rparr>;
          t = retrieveTsConfig w s1 (req_file r) (req_tsconfigPath r)
      in if \<not> truthy (fst t) then (Inr EMPTY_ANSWER, snd t)
         else (let R = retrieveProgramAndSourceFile w (snd t) (req_file r) (the (fst t))
                         (req_projectRoot r)
               in (answerFor w r (fst R), snd R)))"
  by (auto simp: handleAnalysisRequest_def answerFor_def Let_def
      split: prod.splits sum.splits option.splits)

lemma handle_no_config:
  assumes "fst (retrieveTsConfig w (s\<lparr>fileCache := newContent (fileCache s) (req_file r) (req_content r)\<rparr>)
             (req_file r) (req_tsconfigPath r)) = None"
  shows "handleAnalysisRequest w s (Request r) =
           (Inr EMPTY_ANSWER, s\<lparr>fileCache := newContent (fileCache s) (req_file r) (req_content r)\<rparr>)"
  using retrieveTsConfig_None [OF assms]
  by (simp add: handle_unfold)

lemma handle_with_registered:
  assumes cfg: "tsConfigCache s (req_file r) = Some c" and "c \<noteq> []"
    and reg: "registeredSourceFile w s (req_file r) c = Inr (Some found)"
    and fc: "fileCache s (req_file r) = Some (req_content r)"
  shows "handleAnalysisRequest w s (Request r) = (answerFor w r (Inr (Some found)), s)"
proof -
  have "newContent (fileCache s) (req_file r) (req_content r) = fileCache s"
    using fc by (auto simp: newContent_def)
  then have s1: "s\<lparr>fileCache := newContent (fileCache s) (req_file r) (req_content r)\<rparr> = s"
    by simp
  show ?thesis
    unfolding handle_unfold s1
    using assms(2) by (simp add: retrieveTsConfig_cached [OF cfg] retrieve_registered [OF reg])
qed

lemma handle_fileCache:
  "fileCache (snd (handleAnalysisRequest w s (Request r))) (req_file r) = Some (req_content r)"
  unfolding handle_unfold
  by (simp add: Let_def retrieve_keeps_caches retrieveTsConfig_keeps newContent_def)

lemma handle_again:
  assumes cfg: "tsConfigCache (snd (handleAnalysisRequest w s (Request r))) (req_file r) = Some c"
    and "c \<noteq> []"
    and reg: "registeredSourceFile w (snd (handleAnalysisRequest w s (Request r))) (req_file r) c =
              Inr (Some found)"
  shows "handleAnalysisRequest w (snd (handleAnalysisRequest w s (Request r))) (Request r) =
         handleAnalysisRequest w s (Request r)"
proof -
  let ?s1 = "s\<lparr>fileCache := newContent (fileCache s) (req_file r) (req_content r)\<rparr>"
  let ?t = "retrieveTsConfig w ?s1 (req_file r) (req_tsconfigPath r)"
  let ?R = "retrieveProgramAndSourceFile w (snd ?t) (req_file r) (the (fst ?t)) (req_projectRoot r)"
  have again: "handleAnalysisRequest w (snd (handleAnalysisRequest w s (Request r))) (Request r) =
      (answerFor w r (Inr (Some found)), snd (handleAnalysisRequest w s (Request r)))"
    using cfg assms(2) reg handle_fileCache by (rule handle_with_registered)
  show ?thesis
  proof (cases "truthy (fst ?t)")
    case False
    then have h: "handleAnalysisRequest w s (Request r) = (Inr EMPTY_ANSWER, snd ?t)"
      unfolding handle_unfold by (simp add: Let_def)
    have "tsConfigCache (snd ?t) (req_file r) = Some c"
      using cfg unfolding h by simp
    moreover have "fst ?t = None \<or> fst ?t = Some []"
      using False by (cases "fst ?t") simp_all
    ultimately have False
      using retrieveTsConfig_None [of w ?s1 "req_file r" "req_tsconfigPath r"]
        retrieveTsConfig_result_cached [of w ?s1 "req_file r" "req_tsconfigPath r" "[]"]
        assms(2)
      by auto
    then show ?thesis ..
  next
    case True
    then obtain c' where c': "fst ?t = Some c'" by (cases "fst ?t") simp_all
    have h: "handleAnalysisRequest w s (Request r) = (answerFor w r (fst ?R), snd ?R)"
      unfolding handle_unfold using True by (simp add: Let_def)
    have "tsConfigCache (snd ?R) (req_file r) = Some c'"
      using retrieveTsConfig_result_cached [OF c'] by (simp add: retrieve_keeps_caches)
    with cfg have cc: "c' = c" unfolding h by simp
    have "registeredSourceFile w (snd ?R) (req_file r) (the (fst ?t)) = Inr (Some found)"
      using reg unfolding h by (simp add: c' cc)
    then have "fst ?R = Inr (Some found)"
      by (rule retrieve_result_registered)
    then show ?thesis
      using again h by simp
  qed
qed

lemma getTsConfig_loop_cong:
  "existsSync w' = existsSync w \<Longrightarrow> dirname w' = dirname w \<Longrightarrow> join w' = join w \<Longrightarrow>
   getTsConfig_loop w' p = getTsConfig_loop w p"
proof (induction w p rule: getTsConfig_loop.induct)
  case (1 w current)
  then show ?case
    by (simp add: getTsConfig_loop.simps [of w' current] getTsConfig_loop.simps [of w current]
        Let_def)
qed

lemma without_rules_config:
  "getTsConfig (w\<lparr>evaluateRules := e\<rparr>) f p = getTsConfig w f p"
  "retrieveTsConfig (w\<lparr>evaluateRules := e\<rparr>) s f p = retrieveTsConfig w s f p"
  by (simp_all add: getTsConfig_def retrieveTsConfig_def
      getTsConfig_loop_cong [of "w\<lparr>evaluateRules := e\<rparr>" w])

lemma without_rules_service:
  "createNewService (w\<lparr>evaluateRules := e\<rparr>) s c root = createNewService w s c root"
  "registeredSourceFile (w\<lparr>evaluateRules := e\<rparr>) s f c = registeredSourceFile w s f c"
  by (simp_all add: createNewService_def registeredSourceFile_def
      cong: option.case_cong sum.case_cong prod.case_cong)

lemma without_rules_retrieve:
  "retrieveProgramAndSourceFile (w\<lparr>evaluateRules := e\<rparr>) s f c root =
     retrieveProgramAndSourceFile w s f c root"
  by (simp add: retrieveProgramAndSourceFile_def without_rules_service Let_def
      cong: option.case_cong prod.case_cong sum.case_cong)

lemmas without_rules = without_rules_config without_rules_service without_rules_retrieve

lemma answerFor_exclusive:
  "answerFor w r retrieved = Inr a \<Longrightarrow> (issues a = None) \<noteq> (diagnostics a = None)"
  by (auto simp: answerFor_def EMPTY_ANSWER_def getIssues_def
      split: sum.splits option.splits if_splits)

lemma handle_exclusive:
  assumes "fst (handleAnalysisRequest w s v) = Inr a"
  shows "(issues a = None) \<noteq> (diagnostics a = None)"
proof (cases v)
  case Null
  with assms show ?thesis by (simp add: handle_Null)
next
  case (Request r)
  have "fst (handleAnalysisRequest w s (Request r)) = Inr EMPTY_ANSWER \<or>
        (\<exists>retrieved. fst (handleAnalysisRequest w s (Request r)) = answerFor w r retrieved)"
    unfolding handle_unfold by (auto simp: Let_def)
  moreover have "(issues EMPTY_ANSWER = None) \<noteq> (diagnostics EMPTY_ANSWER = None)"
    by (simp add: EMPTY_ANSWER_def)
  ultimately show ?thesis
    using assms Request answerFor_exclusive [of w r _ a] by (metis sum.inject(2))
qed

text \<open>Running the model in the small world.\<close>

lemmas server_defs = handleAnalysisRequest_def retrieveTsConfig_def getTsConfig_def
  retrieveProgramAndSourceFile_def registeredSourceFile_def createNewService_def
  newContent_def getIssues_def EMPTY_ANSWER_def new_server_def Let_def

lemma example_world_fields:
  "existsSync (example_world disk) = (\<lambda>p. p \<in> set disk)"
  "dirname (example_world disk) = posix_dirname"
  "join (example_world disk) = (\<lambda>a b. if a = ''/'' then a @ b else a @ ''/'' @ b)"
  "Buffer_toString (example_world disk) = (\<lambda>bytes. bytes)"
  "JSON_parse (example_world disk) = (\<lambda>str.
          if str = ''{a.ts}'' then Inr (Request example_request)
          else if str = ''null'' then Inr Null
          else Inl SyntaxError)"
  "JSON_stringify (example_world disk) = (\<lambda>a. case diagnostics a of
                             Some ds \<Rightarrow> Inr (''{diagnostics:'' @ concat ds @ ''}'')
                           | None \<Rightarrow> Inr (''{issues:'' @ concat (the (issues a)) @ ''}''))"
  "client_write (example_world disk) = (\<lambda>response. Inr ())"
  "parseTsConfig (example_world disk) = (\<lambda>tsConfig root. Inr ([root @ ''/src/a.ts''], ()))"
  "createService (example_world disk) = (\<lambda>files opt cache. Inr files)"
  "getProgram (example_world disk) = (\<lambda>service cache.
          Inr (Some (map (\<lambda>f. (f, case cache f of None \<Rightarrow> [] | Some c \<Rightarrow> c)) service)))"
  "getSourceFile (example_world disk) =
     (\<lambda>program f. Inr (map_option (\<lambda>c. (f, c)) (map_of program f)))"
  "getDiagnostics (example_world disk) = (\<lambda>sourceFile program.
          if snd sourceFile = ''let x ='' then Inr [''expression expected''] else Inr [])"
  "evaluateRules (example_world disk) = (\<lambda>rs program sourceFile. Inr rs)"
  by (simp_all add: example_world_def)

lemma broken_world_fields:
  "existsSync (broken_world disk) = (\<lambda>p. p \<in> set disk)"
  "dirname (broken_world disk) = posix_dirname"
  "join (broken_world disk) = (\<lambda>a b. if a = ''/'' then a @ b else a @ ''/'' @ b)"
  "Buffer_toString (broken_world disk) = (\<lambda>bytes. bytes)"
  "JSON_parse (broken_world disk) = JSON_parse (example_world disk)"
  "parseTsConfig (broken_world disk) =
     (\<lambda>tsConfig root. Inl (Thrown ''Failed to parse tsconfig''))"
  "getProgram (broken_world disk) = getProgram (example_world disk)"
  "getSourceFile (broken_world disk) = getSourceFile (example_world disk)"
  by (simp_all add: broken_world_def example_world_fields)


lemma example_request_fields:
  "req_file example_request = ''/proj/src/a.ts''"
  "req_rules example_request = [''no-dup'']"
  "req_content example_request = ''let x = 1''"
  "req_projectRoot example_request = ''/proj''"
  "req_tsconfigPath example_request = None"
  by (simp_all add: example_request_def)

lemma DEFAULT_TSCONFIG_truthy: "DEFAULT_TSCONFIG \<noteq> []"
  by (simp add: DEFAULT_TSCONFIG_def)

lemmas example_defs = example_world_fields example_request_fields example_loop_found
  example_loop_default DEFAULT_TSCONFIG_truthy

lemma example_first_request:
  "createdServices (snd (handleAnalysisRequest (example_world []) new_server
     (Request example_request))) = 1"
  "tsConfigCache (snd (handleAnalysisRequest (example_world []) new_server
     (Request example_request))) ''/proj/src/a.ts'' = Some DEFAULT_TSCONFIG"
  "registeredSourceFile (example_world [])
     (snd (handleAnalysisRequest (example_world []) new_server (Request example_request)))
     ''/proj/src/a.ts'' DEFAULT_TSCONFIG =
   Inr (Some ((''/proj/src/a.ts'', ''let x = 1''), [(''/proj/src/a.ts'', ''let x = 1'')]))"
  "registeredSourceFile (example_world [])
     (snd (handleAnalysisRequest (example_world []) new_server (Request example_request)))
     ''/proj/src/b.ts'' DEFAULT_TSCONFIG = Inr None"
  by (simp_all add: server_defs example_defs)

lemma broken_first_request:
  "createdServices (snd (handleAnalysisRequest (example_world [''/proj/tsconfig.json'']) new_server
     (Request example_request))) = 1"
  "servicesPerTsconfig (snd (handleAnalysisRequest (example_world [''/proj/tsconfig.json''])
     new_server (Request example_request))) ''/proj/tsconfig.json'' = Some [''/proj/src/a.ts'']"
  "registeredSourceFile (broken_world [''/proj/tsconfig.json''])
     (snd (handleAnalysisRequest (example_world [''/proj/tsconfig.json'']) new_server
        (Request example_request)))
     ''/proj/src/b.ts'' ''/proj/tsconfig.json'' = Inr None"
  by (simp_all add: server_defs example_defs broken_world_fields)

text \<open>
  Claim C4 (as amended). A request that carries a non-empty explicit configuration path,
  for a file that has no configuration in the cache: \<open>getTsConfig\<close> returns that path
  when it exists on disk and \<^verbatim>\<open>undefined\<close> when it does not, never a result of the
  directory walk; \<open>retrieveTsConfig\<close> returns the same; and when the path does not
  exist, the request is answered with \<open>EMPTY_ANSWER\<close> and the configuration cache is as
  it was.
\<close>

theorem explicit_path_without_cached_configuration:
  assumes "req_tsconfigPath r = Some p" and "p \<noteq> []" and "tsConfigCache s (req_file r) = None"
  shows "getTsConfig w f (Some p) = (if existsSync w p then Some p else None) \<and>
         fst (retrieveTsConfig w (s\<lparr>fileCache := cache\<rparr>) (req_file r) (req_tsconfigPath r)) =
           (if existsSync w p then Some p else None) \<and>
         (\<not> existsSync w p \<longrightarrow>
            fst (handleAnalysisRequest w s (Request r)) = Inr EMPTY_ANSWER \<and>
            tsConfigCache (snd (handleAnalysisRequest w s (Request r))) = tsConfigCache s)"
proof -
  have g: "\<And>f. getTsConfig w f (Some p) = (if existsSync w p then Some p else None)"
    using assms(2) by (rule getTsConfig_explicit)
  have r: "\<And>cache. fst (retrieveTsConfig w (s\<lparr>fileCache := cache\<rparr>) (req_file r) (req_tsconfigPath r)) =
           (if existsSync w p then Some p else None)"
    using assms by (simp add: retrieveTsConfig_uncached g)
  have "\<not> existsSync w p \<Longrightarrow>
    handleAnalysisRequest w s (Request r) =
      (Inr EMPTY_ANSWER, s\<lparr>fileCache := newContent (fileCache s) (req_file r) (req_content r)\<rparr>)"
    by (rule handle_no_config) (simp add: r)
  with g r show ?thesis by simp
qed

theorem explicit_path_without_cached_configuration_witness:
  "fst (handleAnalysisRequest (example_world []) new_server
          (Request (example_request\<lparr>req_tsconfigPath := Some ''/proj/missing.json''\<rparr>))) =
     Inr EMPTY_ANSWER \<and>
   tsConfigCache (snd (handleAnalysisRequest (example_world []) new_server
          (Request (example_request\<lparr>req_tsconfigPath := Some ''/proj/missing.json''\<rparr>)))) =
     tsConfigCache new_server \<and>
   fst (retrieveTsConfig (example_world [''/proj/tsconfig.json''])
          (new_server\<lparr>fileCache := Map.empty\<rparr>) ''/proj/src/a.ts'' (Some ''/proj/tsconfig.json'')) =
     Some ''/proj/tsconfig.json''"
  using explicit_path_without_cached_configuration
      [of "example_request\<lparr>req_tsconfigPath := Some ''/proj/missing.json''\<rparr>"
          "''/proj/missing.json''" new_server "example_world []" "''/proj/src/a.ts''" Map.empty]
    explicit_path_without_cached_configuration
      [of "example_request\<lparr>req_tsconfigPath := Some ''/proj/tsconfig.json''\<rparr>"
          "''/proj/tsconfig.json''" new_server "example_world [''/proj/tsconfig.json'']"
          "''/proj/src/a.ts''" Map.empty]
  by (simp add: example_request_fields example_world_fields new_server_def)

text \<open>
  The claim speaks of every request with an explicit path. A first request for
  \<open>/proj/src/a.ts\<close> without one caches \<open>DEFAULT_TSCONFIG\<close> for the file; a second
  request for the same file with the explicit path \<open>/proj/missing.json\<close>, which is not
  on disk, resolves to the cached \<open>DEFAULT_TSCONFIG\<close> and is answered with the issues of
  the rules, not with the empty answer. And the empty string, given as explicit path,
  is falsy: the directory walk runs.
\<close>

theorem cached_configuration_wins:
  "\<not> existsSync (example_world []) ''/proj/missing.json'' \<and>
   tsConfigCache (snd (handleAnalysisRequest (example_world []) new_server (Request example_request)))
     ''/proj/src/a.ts'' = Some DEFAULT_TSCONFIG \<and>
   fst (retrieveTsConfig (example_world [])
          (snd (handleAnalysisRequest (example_world []) new_server (Request example_request)))
          ''/proj/src/a.ts'' (Some ''/proj/missing.json'')) = Some DEFAULT_TSCONFIG \<and>
   fst (handleAnalysisRequest (example_world [])
          (snd (handleAnalysisRequest (example_world []) new_server (Request example_request)))
          (Request (example_request\<lparr>req_tsconfigPath := Some ''/proj/missing.json''\<rparr>))) =
     Inr \<lparr>issues = Some [''no-dup''], diagnostics = None\<rparr> \<and>
   fst (handleAnalysisRequest (example_world [])
          (snd (handleAnalysisRequest (example_world []) new_server (Request example_request)))
          (Request (example_request\<lparr>req_tsconfigPath := Some ''/proj/missing.json''\<rparr>))) \<noteq>
     Inr EMPTY_ANSWER \<and>
   \<not> existsSync (example_world [''/proj/tsconfig.json'']) [] \<and>
   getTsConfig (example_world [''/proj/tsconfig.json'']) ''/proj/src/a.ts'' (Some []) =
     Some ''/proj/tsconfig.json''"
  by (simp add: server_defs example_defs)

text \<open>
  Claim C10. When the explicit configuration path does not exist on disk,
  \<open>retrieveTsConfig\<close> leaves the server's state, the configuration cache with it, as
  it was. If the file had no cached configuration, the call returns \<^verbatim>\<open>undefined\<close>, and
  a later call for the same file, in any world and with any explicit path, resolves
  afresh: its result is that of \<open>getTsConfig\<close> then. Whatever the call, the state
  after it is the state before, or the state before with the file mapped to the
  non-empty configuration path that \<open>getTsConfig\<close> returned.
\<close>

theorem failed_resolution_not_cached:
  assumes "truthy p" and "\<not> existsSync w (the p)"
  shows "snd (retrieveTsConfig w s f p) = s \<and>
         (tsConfigCache s f = None \<longrightarrow>
            fst (retrieveTsConfig w s f p) = None \<and>
            retrieveTsConfig w' (snd (retrieveTsConfig w s f p)) f p' =
              (if truthy (getTsConfig w' f p')
               then (getTsConfig w' f p',
                     s\<lparr>tsConfigCache := (tsConfigCache s)(f \<mapsto> the (getTsConfig w' f p'))\<rparr>)
               else (None, s))) \<and>
         (\<forall>w'' p''. snd (retrieveTsConfig w'' s f p'') = s \<or>
            (\<exists>c. c \<noteq> [] \<and> getTsConfig w'' f p'' = Some c \<and>
                 snd (retrieveTsConfig w'' s f p'') = s\<lparr>tsConfigCache := (tsConfigCache s)(f \<mapsto> c)\<rparr>))"
proof -
  have g: "getTsConfig w f p = None"
    using assms by (simp add: getTsConfig_def)
  have a: "snd (retrieveTsConfig w s f p) = s"
    by (cases "tsConfigCache s f") (simp_all add: retrieveTsConfig_cached retrieveTsConfig_uncached g)
  have b: "tsConfigCache s f = None \<Longrightarrow> fst (retrieveTsConfig w s f p) = None"
    by (simp add: retrieveTsConfig_uncached g)
  have c: "\<forall>w'' p''. snd (retrieveTsConfig w'' s f p'') = s \<or>
            (\<exists>c. c \<noteq> [] \<and> getTsConfig w'' f p'' = Some c \<and>
                 snd (retrieveTsConfig w'' s f p'') = s\<lparr>tsConfigCache := (tsConfigCache s)(f \<mapsto> c)\<rparr>)"
    using retrieveTsConfig_stores_success by blast
  have d: "tsConfigCache s f = None \<Longrightarrow>
      retrieveTsConfig w' (snd (retrieveTsConfig w s f p)) f p' =
        (if truthy (getTsConfig w' f p')
         then (getTsConfig w' f p',
               s\<lparr>tsConfigCache := (tsConfigCache s)(f \<mapsto> the (getTsConfig w' f p'))\<rparr>)
         else (None, s))"
    unfolding a by (rule retrieveTsConfig_uncached)
  from a b c d show ?thesis by blast
qed

theorem failed_resolution_not_cached_witness:
  "fst (retrieveTsConfig (example_world []) new_server ''/proj/src/a.ts''
          (Some ''/proj/tsconfig.json'')) = None \<and>
   snd (retrieveTsConfig (example_world []) new_server ''/proj/src/a.ts''
          (Some ''/proj/tsconfig.json'')) = new_server \<and>
   fst (retrieveTsConfig (example_world [''/proj/tsconfig.json''])
          (snd (retrieveTsConfig (example_world []) new_server ''/proj/src/a.ts''
                  (Some ''/proj/tsconfig.json'')))
          ''/proj/src/a.ts'' (Some ''/proj/tsconfig.json'')) = Some ''/proj/tsconfig.json''"
proof -
  have t: "truthy (Some ''/proj/tsconfig.json'')"
    by simp
  have e: "\<not> existsSync (example_world []) (the (Some ''/proj/tsconfig.json''))"
    by (simp add: example_world_fields)
  have u: "tsConfigCache new_server ''/proj/src/a.ts'' = None"
    by (simp add: new_server_def)
  have g: "getTsConfig (example_world [''/proj/tsconfig.json'']) ''/proj/src/a.ts''
             (Some ''/proj/tsconfig.json'') = Some ''/proj/tsconfig.json''"
    by (simp add: getTsConfig_def example_world_fields)
  note th = failed_resolution_not_cached [OF t e, of new_server "''/proj/src/a.ts''"
      "example_world [''/proj/tsconfig.json'']" "Some ''/proj/tsconfig.json''"]
  note unchanged = th [THEN conjunct1]
  note failed = th [THEN conjunct2, THEN conjunct1, THEN mp, OF u, THEN conjunct1]
  note later = th [THEN conjunct2, THEN conjunct1, THEN mp, OF u, THEN conjunct2]
  have again: "fst (retrieveTsConfig (example_world [''/proj/tsconfig.json''])
          (snd (retrieveTsConfig (example_world []) new_server ''/proj/src/a.ts''
                  (Some ''/proj/tsconfig.json'')))
          ''/proj/src/a.ts'' (Some ''/proj/tsconfig.json'')) = Some ''/proj/tsconfig.json''"
    unfolding later by (simp add: g)
  from failed unchanged again show ?thesis by (intro conjI)
qed

text \<open>
  Claim C6 (as amended). The services are kept in a map from configuration path to
  service, one service for a path. When the service registered for the path has a
  program with the requested file, \<open>retrieveProgramAndSourceFile\<close> returns them and
  leaves the state as it was: no service is created. When the lookup finds no such file
  and \<^verbatim>\<open>parseTsConfig\<close> and \<^verbatim>\<open>createService\<close> return, exactly one service is created, and
  the map after the call is the map before with the path mapped to the new service.
  Whatever the calls do, a call creates at most one service and changes no entry of the
  map but that of its path. A request repeated in the same world, when the state after
  the first holds a registered source file for it, gives the same result and the same
  state: nothing is rebuilt.
\<close>

theorem one_service_per_configuration:
  "(registeredSourceFile w s f c = Inr (Some found) \<longrightarrow>
      retrieveProgramAndSourceFile w s f c root = (Inr (Some found), s)) \<and>
   (registeredSourceFile w s f c = Inr None \<and> parseTsConfig w c root = Inr (files, options) \<and>
    createService w files options (fileCache s) = Inr service \<longrightarrow>
      createdServices (snd (retrieveProgramAndSourceFile w s f c root)) = createdServices s + 1 \<and>
      servicesPerTsconfig (snd (retrieveProgramAndSourceFile w s f c root)) =
        (servicesPerTsconfig s)(c \<mapsto> service)) \<and>
   (createdServices (snd (retrieveProgramAndSourceFile w s f c root)) = createdServices s \<and>
    servicesPerTsconfig (snd (retrieveProgramAndSourceFile w s f c root)) = servicesPerTsconfig s \<or>
    (\<exists>created.
       createdServices (snd (retrieveProgramAndSourceFile w s f c root)) = createdServices s + 1 \<and>
       servicesPerTsconfig (snd (retrieveProgramAndSourceFile w s f c root)) =
         (servicesPerTsconfig s)(c \<mapsto> created))) \<and>
   (tsConfigCache (snd (handleAnalysisRequest w s (Request r))) (req_file r) = Some c' \<and> c' \<noteq> [] \<and>
    registeredSourceFile w (snd (handleAnalysisRequest w s (Request r))) (req_file r) c' =
      Inr (Some found')
    \<longrightarrow> handleAnalysisRequest w (snd (handleAnalysisRequest w s (Request r))) (Request r) =
          handleAnalysisRequest w s (Request r))"
proof -
  let ?R = "retrieveProgramAndSourceFile w s f c root"
  have rebuilt: "createdServices (snd ?R) = createdServices s + 1 \<and>
      servicesPerTsconfig (snd ?R) = (servicesPerTsconfig s)(c \<mapsto> service)"
    if "registeredSourceFile w s f c = Inr None" "parseTsConfig w c root = Inr (files, options)"
      "createService w files options (fileCache s) = Inr service"
    using that by (simp add: retrieve_rebuilds createNewService_returns)
  have "snd ?R = s \<or> snd ?R = snd (createNewService w s c root)"
    by (auto simp: retrieveProgramAndSourceFile_def split: sum.splits prod.splits option.splits)
  then have atmost: "createdServices (snd ?R) = createdServices s \<and>
      servicesPerTsconfig (snd ?R) = servicesPerTsconfig s \<or>
      (\<exists>created. createdServices (snd ?R) = createdServices s + 1 \<and>
         servicesPerTsconfig (snd ?R) = (servicesPerTsconfig s)(c \<mapsto> created))"
    using createNewService_cases [of w s c root] by auto
  from rebuilt atmost show ?thesis
    using retrieve_registered [of w s f c found root] handle_again [of w s r c' found']
    by blast
qed

theorem one_service_per_configuration_witness:
  "createdServices (snd (handleAnalysisRequest (example_world []) new_server
     (Request example_request))) = 1 \<and>
   handleAnalysisRequest (example_world [])
     (snd (handleAnalysisRequest (example_world []) new_server (Request example_request)))
     (Request example_request) =
   handleAnalysisRequest (example_world []) new_server (Request example_request) \<and>
   createdServices (snd (retrieveProgramAndSourceFile (example_world [])
     (snd (handleAnalysisRequest (example_world []) new_server (Request example_request)))
     ''/proj/src/b.ts'' DEFAULT_TSCONFIG ''/proj'')) = 2"
proof -
  note th = one_service_per_configuration [of "example_world []" new_server
      "''/proj/src/a.ts''" DEFAULT_TSCONFIG _ "''/proj''" _ _ _ example_request
      DEFAULT_TSCONFIG "((''/proj/src/a.ts'', ''let x = 1''), [(''/proj/src/a.ts'', ''let x = 1'')])"]
  note th2 = one_service_per_configuration [of "example_world []"
      "snd (handleAnalysisRequest (example_world []) new_server (Request example_request))"
      "''/proj/src/b.ts''" DEFAULT_TSCONFIG _ "''/proj''" "[''/proj/src/a.ts'']" "()"
      "[''/proj/src/a.ts'']"]
  have again: "handleAnalysisRequest (example_world [])
     (snd (handleAnalysisRequest (example_world []) new_server (Request example_request)))
     (Request example_request) =
   handleAnalysisRequest (example_world []) new_server (Request example_request)"
    using th [THEN conjunct2, THEN conjunct2, THEN conjunct2] example_first_request(2,3)
    by (simp add: example_request_fields DEFAULT_TSCONFIG_truthy)
  have rebuilt: "createdServices (snd (retrieveProgramAndSourceFile (example_world [])
     (snd (handleAnalysisRequest (example_world []) new_server (Request example_request)))
     ''/proj/src/b.ts'' DEFAULT_TSCONFIG ''/proj'')) = 2"
    using th2 [THEN conjunct2, THEN conjunct1] example_first_request(1,4)
    by (simp add: example_world_fields)
  from example_first_request(1) again rebuilt show ?thesis by (intro conjI)
qed

text \<open>
  The claim has a rebuild, and the new model in place of the previous one, whenever
  the registered model lacks the file. A first request registers a service for
  \<open>/proj/tsconfig.json\<close> that has \<open>a.ts\<close> only. Then the configuration file does not
  parse any more. The lookup of \<open>b.ts\<close> finds no file, \<^verbatim>\<open>parseTsConfig\<close> throws, and the
  method is left before \<^verbatim>\<open>servicesPerTsconfig.set\<close>: no service is created and the
  previous one stays registered.
\<close>

theorem failed_rebuild_registers_nothing:
  "servicesPerTsconfig (snd (handleAnalysisRequest (example_world [''/proj/tsconfig.json''])
     new_server (Request example_request))) ''/proj/tsconfig.json'' = Some [''/proj/src/a.ts''] \<and>
   createdServices (snd (handleAnalysisRequest (example_world [''/proj/tsconfig.json''])
     new_server (Request example_request))) = 1 \<and>
   registeredSourceFile (broken_world [''/proj/tsconfig.json''])
     (snd (handleAnalysisRequest (example_world [''/proj/tsconfig.json'']) new_server
        (Request example_request)))
     ''/proj/src/b.ts'' ''/proj/tsconfig.json'' = Inr None \<and>
   fst (retrieveProgramAndSourceFile (broken_world [''/proj/tsconfig.json''])
     (snd (handleAnalysisRequest (example_world [''/proj/tsconfig.json'']) new_server
        (Request example_request)))
     ''/proj/src/b.ts'' ''/proj/tsconfig.json'' ''/proj'') =
     Inl (Thrown ''Failed to parse tsconfig'') \<and>
   createdServices (snd (retrieveProgramAndSourceFile (broken_world [''/proj/tsconfig.json''])
     (snd (handleAnalysisRequest (example_world [''/proj/tsconfig.json'']) new_server
        (Request example_request)))
     ''/proj/src/b.ts'' ''/proj/tsconfig.json'' ''/proj'')) = 1 \<and>
   servicesPerTsconfig (snd (retrieveProgramAndSourceFile (broken_world [''/proj/tsconfig.json''])
     (snd (handleAnalysisRequest (example_world [''/proj/tsconfig.json'']) new_server
        (Request example_request)))
     ''/proj/src/b.ts'' ''/proj/tsconfig.json'' ''/proj'')) ''/proj/tsconfig.json'' =
     Some [''/proj/src/a.ts'']"
proof -
  let ?s1 = "snd (handleAnalysisRequest (example_world [''/proj/tsconfig.json'']) new_server
        (Request example_request))"
  have thrown: "createNewService (broken_world [''/proj/tsconfig.json'']) ?s1
      ''/proj/tsconfig.json'' ''/proj'' = (Inl (Thrown ''Failed to parse tsconfig''), ?s1)"
    by (rule createNewService_throws(1)) (simp add: broken_world_fields)
  have R: "retrieveProgramAndSourceFile (broken_world [''/proj/tsconfig.json'']) ?s1
      ''/proj/src/b.ts'' ''/proj/tsconfig.json'' ''/proj'' =
      (Inl (Thrown ''Failed to parse tsconfig''), ?s1)"
    using broken_first_request(3) thrown by (rule retrieve_rebuild_throws)
  show ?thesis
    unfolding R using broken_first_request by simp
qed

text \<open>
  Claim C7. A request that retrieves its source file and program, with diagnostics for
  them: the answer is \<^verbatim>\<open>{ diagnostics }\<close> with these diagnostics and without
  \<^verbatim>\<open>issues\<close>; the rules are not evaluated, as the answer and the state are the same
  whatever \<open>evaluateRules\<close> is, one that throws included. And in every answer that
  \<open>handleAnalysisRequest\<close> returns, to any parsed value in any world and state, exactly
  one of \<^verbatim>\<open>issues\<close> and \<^verbatim>\<open>diagnostics\<close> is present.
\<close>

theorem diagnostics_only_response:
  assumes "retrieveTsConfig w (s\<lparr>fileCache := newContent (fileCache s) (req_file r) (req_content r)\<rparr>)
             (req_file r) (req_tsconfigPath r) = (Some c, s2)"
    and "c \<noteq> []"
    and "retrieveProgramAndSourceFile w s2 (req_file r) c (req_projectRoot r) =
           (Inr (Some (sourceFile, program)), s3)"
    and "getDiagnostics w sourceFile program = Inr ds" and "ds \<noteq> []"
  shows "handleAnalysisRequest w s (Request r) =
           (Inr \<lparr>issues = None, diagnostics = Some ds\<rparr>, s3) \<and>
         handleAnalysisRequest (w\<lparr>evaluateRules := e\<rparr>) s (Request r) =
           handleAnalysisRequest w s (Request r) \<and>
         (fst (handleAnalysisRequest w' s' v') = Inr a \<longrightarrow>
            (issues a = None) \<noteq> (diagnostics a = None))"
proof -
  have a: "handleAnalysisRequest w s (Request r) =
           (Inr \<lparr>issues = None, diagnostics = Some ds\<rparr>, s3)"
    unfolding handle_unfold using assms by (simp add: answerFor_def)
  have "handleAnalysisRequest (w\<lparr>evaluateRules := e\<rparr>) s (Request r) =
           (Inr \<lparr>issues = None, diagnostics = Some ds\<rparr>, s3)"
    unfolding handle_unfold using assms by (simp add: answerFor_def without_rules)
  with a handle_exclusive [of w' s' v' a] show ?thesis by simp
qed

theorem diagnostics_only_response_witness:
  "handleAnalysisRequest (example_world []) new_server
      (Request (example_request\<lparr>req_content := ''let x =''\<rparr>)) =
     (Inr \<lparr>issues = None, diagnostics = Some [''expression expected'']\<rparr>,
      snd (handleAnalysisRequest (example_world []) new_server
             (Request (example_request\<lparr>req_content := ''let x =''\<rparr>)))) \<and>
   handleAnalysisRequest (example_world []\<lparr>evaluateRules := \<lambda>rs program sourceFile. Inl TypeError\<rparr>)
      new_server (Request (example_request\<lparr>req_content := ''let x =''\<rparr>)) =
   handleAnalysisRequest (example_world []) new_server
      (Request (example_request\<lparr>req_content := ''let x =''\<rparr>))"
proof -
  let ?w = "example_world []"
  let ?r = "example_request\<lparr>req_content := ''let x =''\<rparr>"
  let ?s1 = "(new_server :: string list server)\<lparr>fileCache :=
      newContent (fileCache (new_server :: string list server)) (req_file ?r) (req_content ?r)\<rparr>"
  let ?t = "retrieveTsConfig ?w ?s1 (req_file ?r) (req_tsconfigPath ?r)"
  let ?R = "retrieveProgramAndSourceFile ?w (snd ?t) (req_file ?r) DEFAULT_TSCONFIG (req_projectRoot ?r)"
  let ?sf = "(''/proj/src/a.ts'', ''let x ='')"
  let ?prog = "[(''/proj/src/a.ts'', ''let x ='')]"
  have "fst ?t = Some DEFAULT_TSCONFIG"
    by (simp add: server_defs example_defs)
  then have a1: "?t = (Some DEFAULT_TSCONFIG, snd ?t)"
    by (metis prod.collapse)
  have "fst ?R = Inr (Some (?sf, ?prog))"
    by (simp add: server_defs example_defs)
  then have a3: "?R = (Inr (Some (?sf, ?prog)), snd ?R)"
    by (metis prod.collapse)
  have a4: "getDiagnostics ?w ?sf ?prog = Inr [''expression expected'']"
    by (simp add: example_world_fields)
  have a5: "[''expression expected''] \<noteq> []"
    by simp
  note th = diagnostics_only_response [OF a1 DEFAULT_TSCONFIG_truthy a3 a4 a5,
      of "\<lambda>rs program sourceFile. Inl TypeError"]
  have "snd (handleAnalysisRequest ?w new_server (Request ?r)) = snd ?R"
    using th [THEN conjunct1] by simp
  with th [THEN conjunct1] th [THEN conjunct2, THEN conjunct1] show ?thesis
    by simp
qed

section \<open>Properties of the connection\<close>










end
